theory Spec2Isabelle
  imports Complex_Main "HOL-Library.Sublist"
begin

section \<open>Data model of the trading agent\<close>

text \<open>
  The agent with the decision rule (\<open>makeDecision\<close>, \<open>calculateConfidence\<close>,
  \<open>calculatePositionSize\<close>, \<open>executeTrade\<close>, \<open>startTrading\<close>, \<open>stop\<close>) is embedded
  function by function. A JavaScript \<open>number\<close> is modelled as a \<open>real\<close>: the
  arithmetic is exact, and the special values of IEEE doubles (NaN, the infinities,
  the negative zero) have no counterpart, so statements that divide by the price are
  about snapshots with a non-zero price. An optional field \<open>f?: number\<close> is a
  \<open>real option\<close>.
\<close>

datatype action = buy | sell | hold

text \<open>
  A reason is a template string. Its interpolated numbers are rendered by conversions
  built into the language that work on the binary representation of a double
  (\<open>x.toFixed(d)\<close>, and the plain conversion of \<open>${x}\<close>), so a template is kept
  as the list of its parts, the literal text verbatim and every number with the
  conversion applied to it.
\<close>

datatype part = Text string | ToFixed real nat | Number real

type_synonym template = "part list"

record TradingDecision =
  action :: action
  confidence :: real
  amount :: "real option"
  reason :: template

record MarketData =
  symbol :: string
  price :: real
  volume :: real
  timestamp :: real
  high24h :: "real option"
  low24h :: "real option"
  change24h :: "real option"

record position =
  pos_symbol :: string
  pos_amount :: real
  pos_value :: real

record portfolio_status =
  balance :: real
  positions :: "position list"

record TradingContext =
  marketData :: MarketData
  prediction :: real
  ctx_confidence :: real
  portfolio :: portfolio_status

record config =
  name :: string
  riskTolerance :: real
  maxPositionSize :: real
  minConfidence :: real

text \<open>
  \<open>v || d\<close> on an optional number: the default is taken when the field is absent and
  also when it is zero, which is falsy too.
\<close>

definition or_default :: "real option \<Rightarrow> real \<Rightarrow> real" where
  "or_default v d = (case v of None \<Rightarrow> d | Some x \<Rightarrow> if x = 0 then d else x)"

section \<open>Confidence, position size and decision\<close>

definition calculateConfidence :: "MarketData \<Rightarrow> real \<Rightarrow> real" where
  "calculateConfidence md pred =
     (let volatility =
            \<bar>or_default (high24h md) (price md) - or_default (low24h md) (price md)\<bar> / price md;
          priceDirection = sgn (pred - price md);
          trendConfidence = (if \<bar>or_default (change24h md) 0\<bar> > 0.02 then 0.8 else 0.6);
          baseConfidence = max 0.1 (1 - volatility)
      in min 0.95 (baseConfidence * trendConfidence))"

definition calculatePositionSize :: "config \<Rightarrow> real \<Rightarrow> real \<Rightarrow> real" where
  "calculatePositionSize cfg bal conf =
     (let maxRisk = bal * riskTolerance cfg;
          confidenceAdjusted = maxRisk * conf
      in min confidenceAdjusted (bal * maxPositionSize cfg))"

definition makeDecision :: "config \<Rightarrow> TradingContext \<Rightarrow> TradingDecision" where
  "makeDecision cfg context =
     (let md = marketData context;
          pred = prediction context;
          conf = ctx_confidence context;
          pf = portfolio context
      in if conf < minConfidence cfg then
           \<lparr>action = hold, confidence = conf, amount = None,
            reason = [Text ''Confidence '', ToFixed conf 2, Text '' below threshold '',
                      Number (minConfidence cfg)]\<rparr>
         else
           let priceChange = (pred - price md) / price md;
               expectedProfit = \<bar>priceChange\<bar>;
               riskAdjustedAmount = calculatePositionSize cfg (balance pf) conf
           in if priceChange > 0.02 \<and> expectedProfit > 0.01 then
                \<lparr>action = buy, confidence = conf, amount = Some riskAdjustedAmount,
                 reason = [Text ''Predicted price increase of '',
                           ToFixed (priceChange * 100) 2, Text ''%'']\<rparr>
              else if priceChange < - 0.02 \<and> expectedProfit > 0.01 then
                \<lparr>action = sell, confidence = conf, amount = Some riskAdjustedAmount,
                 reason = [Text ''Predicted price decrease of '',
                           ToFixed (priceChange * 100) 2, Text ''%'']\<rparr>
              else
                \<lparr>action = hold, confidence = conf, amount = None,
                 reason = [Text ''Price change '', ToFixed (priceChange * 100) 2,
                           Text ''% insufficient for action'']\<rparr>)"

text \<open>
  \<open>calculatePositionSize\<close> as an operation that may fail: its body has no
  \<open>throw\<close> and calls nothing but \<open>Math.min\<close>, so every call returns.
\<close>

datatype error = Error string | RangeError string

definition calculatePositionSize_outcome :: "config \<Rightarrow> real \<Rightarrow> real \<Rightarrow> error + real" where
  "calculatePositionSize_outcome cfg bal conf = Inr (calculatePositionSize cfg bal conf)"

text \<open>The price change of the decision rule, as the specification writes it.\<close>

definition priceChange_of :: "TradingContext \<Rightarrow> real" where
  "priceChange_of context =
     (prediction context - price (marketData context)) / price (marketData context)"

section \<open>Collaborators and effects\<close>

text \<open>
  An asynchronous method returns a result, \<open>Inl\<close> for a thrown error, together with
  the trace of what it did, in order: the log lines (message and the symbol or name of
  their context, and the error logged, if any), the calls of the execution client, and
  the delays awaited.
\<close>

record trade_request =
  req_action :: action
  req_symbol :: string
  req_amount :: real
  maxSlippage :: real

datatype event =
    LogInfo string string
  | LogError string string "error option"
  | ClientExecuteTrade trade_request
  | Delay nat

text \<open>
  What lies outside the agent, as it answers while one symbol is processed: the three
  draws of \<open>Math.random()\<close> and the clock read by \<open>getMarketData\<close>, the predictor's
  \<open>predict\<close> (which throws when its model is not initialized or the inference fails),
  and the \<open>executeTrade\<close> of the execution client, which answers a boolean or throws.
\<close>

record world =
  math_random :: "string \<Rightarrow> real \<times> real \<times> real"
  date_now :: "string \<Rightarrow> real"
  predictor_predict :: "string \<Rightarrow> real list \<Rightarrow> error + real"
  hyperionClient_executeTrade :: "trade_request \<Rightarrow> error + bool"

record agent =
  agent_config :: config
  isInitialized :: bool

definition getMarketData :: "world \<Rightarrow> string \<Rightarrow> MarketData" where
  "getMarketData w s =
     (case math_random w s of (r1, r2, r3) \<Rightarrow>
        let mockPrice = 100 + r1 * 10
        in \<lparr>symbol = s, price = mockPrice, volume = r2 * 1000000, timestamp = date_now w s,
            high24h = Some (mockPrice * 1.05), low24h = Some (mockPrice * 0.95),
            change24h = Some ((r3 - 0.5) * 0.1)\<rparr>)"

definition getPortfolioStatus :: portfolio_status where
  "getPortfolioStatus =
     \<lparr>balance = 1000,
      positions = [\<lparr>pos_symbol = ''ETH'', pos_amount = 0.5, pos_value = 1600\<rparr>,
                   \<lparr>pos_symbol = ''METIS'', pos_amount = 100, pos_value = 3500\<rparr>]\<rparr>"

text \<open>The body of the \<open>try\<close> of \<open>analyzeMarket\<close>: only the predictor can throw in it.\<close>

definition analyzeMarket_try :: "agent \<Rightarrow> world \<Rightarrow> string \<Rightarrow> (error + TradingDecision) \<times> event list" where
  "analyzeMarket_try a w s =
     (let md = getMarketData w s
      in case predictor_predict w s [price md] of
           Inl e \<Rightarrow> (Inl e, [LogInfo ''Analyzing market'' s])
         | Inr pred \<Rightarrow>
             let conf = calculateConfidence md pred;
                 context = \<lparr>marketData = md, prediction = pred, ctx_confidence = conf,
                            portfolio = getPortfolioStatus\<rparr>;
                 decision = makeDecision (agent_config a) context
             in (Inr decision,
                 [LogInfo ''Analyzing market'' s, LogInfo ''Market analysis complete'' s]))"

definition analyzeMarket :: "agent \<Rightarrow> world \<Rightarrow> string \<Rightarrow> (error + TradingDecision) \<times> event list" where
  "analyzeMarket a w s =
     (if \<not> isInitialized a then (Inl (Error ''Agent not initialized''), [])
      else case analyzeMarket_try a w s of
             (Inl e, evs) \<Rightarrow> (Inl e, evs @ [LogError ''Market analysis failed'' s (Some e)])
           | (Inr decision, evs) \<Rightarrow> (Inr decision, evs))"

definition trade_request_of :: "TradingDecision \<Rightarrow> string \<Rightarrow> trade_request" where
  "trade_request_of decision s =
     \<lparr>req_action = action decision, req_symbol = s,
      req_amount = or_default (amount decision) 0, maxSlippage = 0.005\<rparr>"

definition executeTrade :: "world \<Rightarrow> TradingDecision \<Rightarrow> string \<Rightarrow> (error + bool) \<times> event list" where
  "executeTrade w decision s =
     (if action decision = hold then (Inr True, [LogInfo ''No action required'' s])
      else
        let req = trade_request_of decision s
        in case hyperionClient_executeTrade w req of
             Inr success \<Rightarrow>
               (Inr success,
                [LogInfo ''Executing trade'' s, ClientExecuteTrade req,
                 if success then LogInfo ''Trade executed successfully'' s
                 else LogError ''Trade execution failed'' s None])
           | Inl e \<Rightarrow>
               (Inr False,
                [LogInfo ''Executing trade'' s, ClientExecuteTrade req,
                 LogError ''Trade execution error'' s (Some e)]))"

text \<open>One iteration of the \<open>for\<close> of \<open>tradingLoop\<close>: the \<open>try\<close> and its \<open>catch\<close>.\<close>

definition tradingLoop_body :: "agent \<Rightarrow> world \<Rightarrow> string \<Rightarrow> (error + unit) \<times> event list" where
  "tradingLoop_body a w s =
     (case analyzeMarket a w s of
        (Inl e, evs) \<Rightarrow> (Inr (), evs @ [LogError ''Trading loop error'' s (Some e)])
      | (Inr decision, evs) \<Rightarrow>
          (case executeTrade w decision s of
             (Inl e, evs') \<Rightarrow> (Inr (), evs @ evs' @ [LogError ''Trading loop error'' s (Some e)])
           | (Inr success, evs') \<Rightarrow> (Inr (), evs @ evs' @ [Delay 1000])))"

text \<open>The loop over the symbols: an error that left an iteration would end the loop.\<close>

fun tradingLoop :: "agent \<Rightarrow> world \<Rightarrow> string list \<Rightarrow> (error + unit) \<times> event list" where
  "tradingLoop a w [] = (Inr (), [])"
| "tradingLoop a w (s # ss) =
     (case tradingLoop_body a w s of
        (Inl e, evs) \<Rightarrow> (Inl e, evs)
      | (Inr u, evs) \<Rightarrow> (case tradingLoop a w ss of (r, evs') \<Rightarrow> (r, evs @ evs')))"

text \<open>
  The agent together with the timers of the runtime: \<open>setInterval\<close> registers the
  callback, here the list of symbols it closes over and its period, and nothing in the
  class keeps the handle it returns. \<open>interval_fires\<close> is the runtime calling the
  \<open>i\<close>-th registered callback, which starts a pass over its symbols.
\<close>

record runtime =
  the_agent :: agent
  intervals :: "(string list \<times> nat) list"

definition startTrading :: "world \<Rightarrow> runtime \<Rightarrow> string list \<Rightarrow> nat option \<Rightarrow> (error + unit) \<times> runtime \<times> event list" where
  "startTrading w rt symbols intervalMs_opt =
     (let intervalMs = (case intervalMs_opt of None \<Rightarrow> 30000 | Some ms \<Rightarrow> ms)
      in if \<not> isInitialized (the_agent rt) then (Inl (Error ''Agent not initialized''), rt, [])
         else case tradingLoop (the_agent rt) w symbols of
                (Inl e, evs) \<Rightarrow> (Inl e, rt, LogInfo ''Starting automated trading'' [] # evs)
              | (Inr u, evs) \<Rightarrow>
                  (Inr (), rt\<lparr>intervals := intervals rt @ [(symbols, intervalMs)]\<rparr>,
                   LogInfo ''Starting automated trading'' [] # evs))"

definition stop :: "runtime \<Rightarrow> runtime \<times> event list" where
  "stop rt =
     (rt\<lparr>the_agent := (the_agent rt)\<lparr>isInitialized := False\<rparr>\<rparr>,
      [LogInfo ''Stopping TradingAgent'' (name (agent_config (the_agent rt)))])"

definition interval_fires :: "world \<Rightarrow> runtime \<Rightarrow> nat \<Rightarrow> ((error + unit) \<times> event list) option" where
  "interval_fires w rt i =
     (if i < length (intervals rt)
      then Some (tradingLoop (the_agent rt) w (fst (intervals rt ! i)))
      else None)"

section \<open>The agent driven by trading signals\<close>

text \<open>
  The second agent of the repository asks a language-model agent for an analysis of a
  trading pair and turns the answer into a signal. The prompt is built first, inside
  the \<open>try\<close>: of its interpolations only \<open>new Date(timestamp * 1000).toISOString()\<close>
  can throw, a \<open>RangeError\<close> when the time value is outside the range of a date, that
  is beyond 8.64e15 milliseconds either way. The parameter \<open>agent_run\<close> stands for the
  awaited \<open>agent.run\<close> on that prompt together with the read of \<open>content\<close> from
  its response: it answers the content or throws. The log line of the \<open>catch\<close> carries
  the error alone, with no pair.
\<close>

datatype signal_action = BUY | SELL | HOLD | ADD_LIQUIDITY

datatype risk_level = LOW | MEDIUM | HIGH

record PairMarketData =
  pair :: string
  reserveA :: string
  reserveB :: string
  pair_price :: real
  volume24h :: real
  pair_timestamp :: real

record TradingSignal =
  sig_action :: signal_action
  sig_confidence :: real
  sig_amount :: "string option"
  expectedPrice :: real
  riskLevel :: risk_level
  mevRisk :: bool

definition parseAIResponse :: "string \<Rightarrow> PairMarketData \<Rightarrow> TradingSignal" where
  "parseAIResponse response md =
     \<lparr>sig_action = HOLD, sig_confidence = 50, sig_amount = None,
      expectedPrice = pair_price md, riskLevel = MEDIUM, mevRisk = False\<rparr>"

definition generateFallbackSignal :: "PairMarketData \<Rightarrow> TradingSignal" where
  "generateFallbackSignal md =
     \<lparr>sig_action = HOLD, sig_confidence = 30, sig_amount = None,
      expectedPrice = pair_price md, riskLevel = HIGH, mevRisk = False\<rparr>"

definition toISOString_of_seconds :: "real \<Rightarrow> error + unit" where
  "toISOString_of_seconds ts =
     (if \<bar>ts * 1000\<bar> > 8640000000000000 then Inl (RangeError ''Invalid time value'')
      else Inr ())"

text \<open>The body of the \<open>try\<close> of \<open>analyzeMarketAndGenerateSignal\<close>.\<close>

definition analyzeMarketAndGenerateSignal_try ::
    "(PairMarketData \<Rightarrow> error + string) \<Rightarrow> PairMarketData \<Rightarrow> error + TradingSignal" where
  "analyzeMarketAndGenerateSignal_try agent_run md =
     (case toISOString_of_seconds (pair_timestamp md) of
        Inl e \<Rightarrow> Inl e
      | Inr u \<Rightarrow>
          (case agent_run md of
             Inl e \<Rightarrow> Inl e
           | Inr content \<Rightarrow> Inr (parseAIResponse content md)))"

definition analyzeMarketAndGenerateSignal ::
    "(PairMarketData \<Rightarrow> error + string) \<Rightarrow> PairMarketData \<Rightarrow> (error + TradingSignal) \<times> event list" where
  "analyzeMarketAndGenerateSignal agent_run md =
     (case analyzeMarketAndGenerateSignal_try agent_run md of
        Inr signal \<Rightarrow> (Inr signal, [])
      | Inl e \<Rightarrow>
          (Inr (generateFallbackSignal md),
           [LogError ''Error generating trading signal:'' [] (Some e)]))"

section \<open>Inputs of the scenarios\<close>

text \<open>
  The configuration and the snapshot of the specification's scenarios, and an
  environment in which the forecast of one symbol of three fails.
\<close>

definition scenario_config :: config where
  "scenario_config =
     \<lparr>name = ''agent'', riskTolerance = 0.1, maxPositionSize = 0.05, minConfidence = 0.5\<rparr>"

definition snapshot_100 :: MarketData where
  "snapshot_100 = \<lparr>symbol = ''ETH'', price = 100, volume = 0, timestamp = 0,
                    high24h = None, low24h = None, change24h = None\<rparr>"

definition scenario_context :: "real \<Rightarrow> real \<Rightarrow> TradingContext" where
  "scenario_context pred conf =
     \<lparr>marketData = snapshot_100, prediction = pred, ctx_confidence = conf,
      portfolio = getPortfolioStatus\<rparr>"

definition volatile_snapshot :: MarketData where
  "volatile_snapshot = \<lparr>symbol = ''ETH'', price = 100, volume = 0, timestamp = 0,
                         high24h = Some 200, low24h = Some 100, change24h = None\<rparr>"

definition invalid_config :: config where
  "invalid_config =
     \<lparr>name = ''agent'', riskTolerance = 2, maxPositionSize = - 1, minConfidence = 0.5\<rparr>"

definition sample_agent :: agent where
  "sample_agent = \<lparr>agent_config = scenario_config, isInitialized = True\<rparr>"

definition failed_prediction :: error where
  "failed_prediction = Error ''Prediction failed''"

definition sample_world :: world where
  "sample_world =
     \<lparr>math_random = (\<lambda>s. (0, 0, 0.5)),
      date_now = (\<lambda>s. 0),
      predictor_predict = (\<lambda>s xs. if s = ''BTC'' then Inl failed_prediction else Inr 103),
      hyperionClient_executeTrade = (\<lambda>req. Inr True)\<rparr>"

definition sample_buy :: TradingDecision where
  "sample_buy = \<lparr>action = buy, confidence = 0.54, amount = Some 50,
      reason = [Text ''Predicted price increase of '', ToFixed 3 2, Text ''%'']\<rparr>"

definition sample_hold :: TradingDecision where
  "sample_hold = \<lparr>action = hold, confidence = 0.3, amount = None,
      reason = [Text ''Confidence '', ToFixed 0.3 2, Text '' below threshold '', Number 0.5]\<rparr>"

definition network_error :: error where
  "network_error = Error ''network error''"

definition unreachable_client_world :: world where
  "unreachable_client_world =
     sample_world\<lparr>hyperionClient_executeTrade := (\<lambda>req. Inl network_error)\<rparr>"

definition sample_pair :: PairMarketData where
  "sample_pair = \<lparr>pair = ''METIS/USDC'', reserveA = ''1000'', reserveB = ''2000'',
                   pair_price = 2, volume24h = 0, pair_timestamp = 0\<rparr>"

definition undatable_pair :: PairMarketData where
  "undatable_pair = sample_pair\<lparr>pair_timestamp := 10000000000000000\<rparr>"

definition sample_runtime :: runtime where
  "sample_runtime = \<lparr>the_agent = sample_agent, intervals = []\<rparr>"

section \<open>The decision rule\<close>

text \<open>
  C1. Whenever the confidence of the context is strictly below \<open>minConfidence\<close>, the
  decision is a hold that keeps the confidence, carries no amount and whose reason
  cites the confidence and the threshold, whatever the prediction and the price are.
\<close>

theorem makeDecision_confidence_gate:
  assumes "ctx_confidence context < minConfidence cfg"
  shows "makeDecision cfg context =
           \<lparr>action = hold, confidence = ctx_confidence context, amount = None,
            reason = [Text ''Confidence '', ToFixed (ctx_confidence context) 2,
                      Text '' below threshold '', Number (minConfidence cfg)]\<rparr>"
  using assms by (simp add: makeDecision_def Let_def)

text \<open>Scenario C: price 100, prediction 105, confidence 0.3 against a threshold of 0.5.\<close>

theorem makeDecision_confidence_gate_witness:
  "ctx_confidence (scenario_context 105 0.3) < minConfidence scenario_config \<and>
   makeDecision scenario_config (scenario_context 105 0.3) =
     \<lparr>action = hold, confidence = 0.3, amount = None,
      reason = [Text ''Confidence '', ToFixed 0.3 2, Text '' below threshold '', Number 0.5]\<rparr>"
  using makeDecision_confidence_gate [of "scenario_context 105 0.3" scenario_config]
  by (simp add: scenario_context_def scenario_config_def)

text \<open>Past the gate, the decision is read off the price change alone.\<close>

lemma makeDecision_passed:
  assumes "minConfidence cfg \<le> ctx_confidence context"
  shows "makeDecision cfg context =
     (let pc = priceChange_of context;
          amt = calculatePositionSize cfg (balance (portfolio context)) (ctx_confidence context)
      in if pc > 0.02 \<and> \<bar>pc\<bar> > 0.01 then
           \<lparr>action = buy, confidence = ctx_confidence context, amount = Some amt,
            reason = [Text ''Predicted price increase of '', ToFixed (pc * 100) 2, Text ''%'']\<rparr>
         else if pc < - 0.02 \<and> \<bar>pc\<bar> > 0.01 then
           \<lparr>action = sell, confidence = ctx_confidence context, amount = Some amt,
            reason = [Text ''Predicted price decrease of '', ToFixed (pc * 100) 2, Text ''%'']\<rparr>
         else
           \<lparr>action = hold, confidence = ctx_confidence context, amount = None,
            reason = [Text ''Price change '', ToFixed (pc * 100) 2,
                      Text ''% insufficient for action'']\<rparr>)"
proof -
  have "\<not> ctx_confidence context < minConfidence cfg" using assms by simp
  then show ?thesis
    unfolding makeDecision_def Let_def priceChange_of_def by (simp only: if_False)
qed

lemma scenario_A: "action (makeDecision scenario_config (scenario_context 103 0.8)) = buy"
  by (simp add: makeDecision_def scenario_context_def scenario_config_def snapshot_100_def Let_def)

lemma scenario_B: "action (makeDecision scenario_config (scenario_context 98.5 0.9)) = hold"
  by (simp add: makeDecision_def scenario_context_def scenario_config_def snapshot_100_def Let_def)

text \<open>
  C2. For a context that passes the gate, on a snapshot with a non-zero price, the
  action is buy when the price change is above 0.02 and its magnitude above 0.01, sell
  when it is below -0.02 and its magnitude above 0.01, and otherwise hold with the
  reason that the price change is insufficient for action. Scenario A (price 100,
  prediction 103, confidence 0.8, threshold 0.5) buys and scenario B (price 100,
  prediction 98.5, confidence 0.9) holds.
\<close>

theorem makeDecision_thresholds:
  "(minConfidence cfg \<le> ctx_confidence context \<and> price (marketData context) \<noteq> 0 \<longrightarrow>
      (priceChange_of context > 0.02 \<and> \<bar>priceChange_of context\<bar> > 0.01 \<longrightarrow>
         action (makeDecision cfg context) = buy) \<and>
      (priceChange_of context < - 0.02 \<and> \<bar>priceChange_of context\<bar> > 0.01 \<longrightarrow>
         action (makeDecision cfg context) = sell) \<and>
      (\<not> (priceChange_of context > 0.02 \<and> \<bar>priceChange_of context\<bar> > 0.01) \<and>
       \<not> (priceChange_of context < - 0.02 \<and> \<bar>priceChange_of context\<bar> > 0.01) \<longrightarrow>
         action (makeDecision cfg context) = hold \<and>
         reason (makeDecision cfg context) =
           [Text ''Price change '', ToFixed (priceChange_of context * 100) 2,
            Text ''% insufficient for action'']))
   \<and> action (makeDecision scenario_config (scenario_context 103 0.8)) = buy
   \<and> action (makeDecision scenario_config (scenario_context 98.5 0.9)) = hold"
proof -
  have "minConfidence cfg \<le> ctx_confidence context \<Longrightarrow> ?thesis"
    using scenario_A scenario_B
    by (simp add: makeDecision_passed Let_def del: abs_less_iff)
  then show ?thesis using scenario_A scenario_B by blast
qed

text \<open>A buy, a sell and a hold past the gate, on the snapshot with price 100.\<close>

theorem makeDecision_thresholds_witness:
  "minConfidence scenario_config \<le> ctx_confidence (scenario_context 103 0.8) \<and>
   price (marketData (scenario_context 103 0.8)) \<noteq> 0 \<and>
   priceChange_of (scenario_context 103 0.8) > 0.02 \<and>
   \<bar>priceChange_of (scenario_context 103 0.8)\<bar> > 0.01 \<and>
   action (makeDecision scenario_config (scenario_context 103 0.8)) = buy \<and>
   minConfidence scenario_config \<le> ctx_confidence (scenario_context 90 0.8) \<and>
   price (marketData (scenario_context 90 0.8)) \<noteq> 0 \<and>
   priceChange_of (scenario_context 90 0.8) < - 0.02 \<and>
   \<bar>priceChange_of (scenario_context 90 0.8)\<bar> > 0.01 \<and>
   action (makeDecision scenario_config (scenario_context 90 0.8)) = sell \<and>
   minConfidence scenario_config \<le> ctx_confidence (scenario_context 98.5 0.9) \<and>
   price (marketData (scenario_context 98.5 0.9)) \<noteq> 0 \<and>
   \<not> (priceChange_of (scenario_context 98.5 0.9) > 0.02 \<and>
       \<bar>priceChange_of (scenario_context 98.5 0.9)\<bar> > 0.01) \<and>
   \<not> (priceChange_of (scenario_context 98.5 0.9) < - 0.02 \<and>
       \<bar>priceChange_of (scenario_context 98.5 0.9)\<bar> > 0.01) \<and>
   action (makeDecision scenario_config (scenario_context 98.5 0.9)) = hold \<and>
   reason (makeDecision scenario_config (scenario_context 98.5 0.9)) =
     [Text ''Price change '', ToFixed (- 1.5) 2, Text ''% insufficient for action'']"
proof -
  have h: "priceChange_of (scenario_context 103 0.8) = 0.03"
          "priceChange_of (scenario_context 90 0.8) = - 0.1"
          "priceChange_of (scenario_context 98.5 0.9) = - 0.015"
          "\<And>p c. ctx_confidence (scenario_context p c) = c"
          "\<And>p c. price (marketData (scenario_context p c)) = 100"
          "minConfidence scenario_config = 0.5"
    by (simp_all add: priceChange_of_def scenario_context_def snapshot_100_def scenario_config_def)
  show ?thesis
    using makeDecision_thresholds [of scenario_config "scenario_context 103 0.8"]
          makeDecision_thresholds [of scenario_config "scenario_context 90 0.8"]
          makeDecision_thresholds [of scenario_config "scenario_context 98.5 0.9"]
    unfolding h by simp
qed

section \<open>Position size\<close>

text \<open>
  C3. For a non-negative balance, a confidence in [0,1] and a configuration whose
  \<open>riskTolerance\<close> and \<open>maxPositionSize\<close> are in [0,1], the position size is exactly
  the smaller of balance * riskTolerance * confidence and balance * maxPositionSize,
  and it lies between 0 and balance * maxPositionSize. Scenario D (balance 1000,
  riskTolerance 0.1, maxPositionSize 0.05, confidence 0.8) gives 50.
\<close>

theorem calculatePositionSize_bounded:
  "(0 \<le> bal \<and> 0 \<le> conf \<and> conf \<le> 1 \<and>
    0 \<le> riskTolerance cfg \<and> riskTolerance cfg \<le> 1 \<and>
    0 \<le> maxPositionSize cfg \<and> maxPositionSize cfg \<le> 1 \<longrightarrow>
      calculatePositionSize cfg bal conf
        = min (bal * riskTolerance cfg * conf) (bal * maxPositionSize cfg) \<and>
      0 \<le> calculatePositionSize cfg bal conf \<and>
      calculatePositionSize cfg bal conf \<le> bal * maxPositionSize cfg)
   \<and> calculatePositionSize scenario_config 1000 0.8 = 50"
  by (simp add: calculatePositionSize_def Let_def scenario_config_def)

theorem calculatePositionSize_bounded_witness:
  "(0::real) \<le> 1000 \<and> (0::real) \<le> 0.8 \<and> (0.8::real) \<le> 1 \<and>
   0 \<le> riskTolerance scenario_config \<and> riskTolerance scenario_config \<le> 1 \<and>
   0 \<le> maxPositionSize scenario_config \<and> maxPositionSize scenario_config \<le> 1 \<and>
   calculatePositionSize scenario_config 1000 0.8 = min (1000 * 0.1 * 0.8) (1000 * 0.05) \<and>
   0 \<le> calculatePositionSize scenario_config 1000 0.8 \<and>
   calculatePositionSize scenario_config 1000 0.8 \<le> 1000 * 0.05"
  using calculatePositionSize_bounded [of 1000 "0.8" scenario_config]
  by (simp add: scenario_config_def)

text \<open>
  C4, as the specification states it, asks for a failure on a negative balance or on a
  \<open>riskTolerance\<close> or \<open>maxPositionSize\<close> outside [0,1]. With all three out of range
  the call returns an amount, here a negative one.
\<close>

theorem calculatePositionSize_no_validation_counterexample:
  "calculatePositionSize_outcome invalid_config (- 1000) 0.8 = Inr (- 1600) \<and>
   \<not> isl (calculatePositionSize_outcome invalid_config (- 1000) 0.8)"
  by (simp add: calculatePositionSize_outcome_def calculatePositionSize_def Let_def
        invalid_config_def)

text \<open>
  C4, amended. The position-sizing operation validates nothing: for every balance,
  confidence and configuration, in range or not, it returns the smaller of
  balance * riskTolerance * confidence and balance * maxPositionSize and never fails.
\<close>

theorem calculatePositionSize_always_returns:
  "calculatePositionSize_outcome cfg bal conf
     = Inr (min (bal * riskTolerance cfg * conf) (bal * maxPositionSize cfg))"
  by (simp add: calculatePositionSize_outcome_def calculatePositionSize_def Let_def)

section \<open>Confidence\<close>

lemma calculateConfidence_bounds:
  assumes "0 < price md"
  shows "0.06 \<le> calculateConfidence md pred" and "calculateConfidence md pred \<le> 0.8"
proof -
  define v where
    "v = \<bar>or_default (high24h md) (price md) - or_default (low24h md) (price md)\<bar> / price md"
  define b where "b = max 0.1 (1 - v)"
  define t :: real where "t = (if \<bar>or_default (change24h md) 0\<bar> > 0.02 then 0.8 else 0.6)"
  have v0: "0 \<le> v" using assms by (simp add: v_def)
  have b: "0.1 \<le> b" "b \<le> 1" using v0 by (auto simp: b_def)
  have t: "0.6 \<le> t" "t \<le> 0.8" by (auto simp: t_def)
  have eq: "calculateConfidence md pred = min 0.95 (b * t)"
    by (simp add: calculateConfidence_def Let_def v_def b_def t_def)
  have lo: "0.1 * 0.6 \<le> b * t" using b t by (intro mult_mono) auto
  have hi: "b * t \<le> 1 * 0.8" using b t by (intro mult_mono) auto
  show "0.06 \<le> calculateConfidence md pred" using lo hi unfolding eq by simp
  show "calculateConfidence md pred \<le> 0.8" using lo hi unfolding eq by simp
qed

lemma volatile_snapshot_confidence: "calculateConfidence volatile_snapshot pred = 0.06"
  by (simp add: calculateConfidence_def or_default_def volatile_snapshot_def)

text \<open>
  C5. For every snapshot with a positive price, whether or not \<open>high24h\<close>, \<open>low24h\<close>
  and \<open>change24h\<close> are present, and every predicted price, the confidence lies in
  [0.05, 0.95]; it is never below 0.06, and 0.06 is reached, on a snapshot whose range
  of the day equals its price and whose trend is flat.
\<close>

theorem calculateConfidence_range:
  "(0 < price md \<longrightarrow>
      0.05 \<le> calculateConfidence md pred \<and> calculateConfidence md pred \<le> 0.95 \<and>
      0.06 \<le> calculateConfidence md pred)
   \<and> (0 < price volatile_snapshot \<and> calculateConfidence volatile_snapshot pred = 0.06)"
proof -
  have "0 < price volatile_snapshot" by (simp add: volatile_snapshot_def)
  moreover have "0 < price md \<Longrightarrow> 0.05 \<le> calculateConfidence md pred"
    using calculateConfidence_bounds(1) [of md pred] by simp
  moreover have "0 < price md \<Longrightarrow> calculateConfidence md pred \<le> 0.95"
    using calculateConfidence_bounds(2) [of md pred] by simp
  ultimately show ?thesis
    using calculateConfidence_bounds(1) [of md pred] volatile_snapshot_confidence [of pred]
    by blast
qed

theorem calculateConfidence_range_witness:
  "0 < price volatile_snapshot \<and>
   0.05 \<le> calculateConfidence volatile_snapshot 105 \<and>
   calculateConfidence volatile_snapshot 105 \<le> 0.95 \<and>
   calculateConfidence volatile_snapshot 105 = 0.06"
  using calculateConfidence_range [of volatile_snapshot 105]
  by (simp add: volatile_snapshot_def)

text \<open>
  C9. On a fixed snapshot the confidence is the same for any two predicted prices: the
  direction of the prediction is computed and never used.
\<close>

theorem calculateConfidence_ignores_prediction:
  "calculateConfidence md pred1 = calculateConfidence md pred2"
  by (simp add: calculateConfidence_def Let_def)

section \<open>One pass over the symbols\<close>

lemma executeTrade_returns: "\<exists>b. fst (executeTrade w d s) = Inr b"
  by (auto simp: executeTrade_def Let_def split: sum.split)

lemma tradingLoop_body_returns: "fst (tradingLoop_body a w s) = Inr ()"
  by (simp add: tradingLoop_body_def split: prod.split sum.split)

lemma tradingLoop_trace:
  "tradingLoop a w ss = (Inr (), concat (map (\<lambda>s. snd (tradingLoop_body a w s)) ss))"
proof (induction ss)
  case Nil
  show ?case by simp
next
  case (Cons s ss)
  obtain evs where b: "tradingLoop_body a w s = (Inr (), evs)"
    using tradingLoop_body_returns [of a w s] by (cases "tradingLoop_body a w s") auto
  show ?case by (simp add: b Cons.IH)
qed

lemma body_sublist_of_tick:
  assumes "s \<in> set ss"
  shows "sublist (snd (tradingLoop_body a w s)) (snd (tradingLoop a w ss))"
proof -
  obtain xs ys where "ss = xs @ s # ys" using assms by (auto simp: in_set_conv_decomp)
  then show ?thesis by (simp add: tradingLoop_trace)
qed

lemma tradingLoop_body_failed:
  assumes "analyzeMarket a w s = (Inl e, evs)"
  shows "snd (tradingLoop_body a w s) = evs @ [LogError ''Trading loop error'' s (Some e)]"
  using assms by (simp add: tradingLoop_body_def)

lemma tradingLoop_body_analysed:
  assumes "analyzeMarket a w s = (Inr d, evs)"
  shows "snd (tradingLoop_body a w s) = evs @ snd (executeTrade w d s) @ [Delay 1000]"
proof -
  obtain b evs' where "executeTrade w d s = (Inr b, evs')"
    using executeTrade_returns [of w d s] by (cases "executeTrade w d s") auto
  then show ?thesis using assms by (simp add: tradingLoop_body_def)
qed

lemma sample_analysis_fails:
  "analyzeMarket sample_agent sample_world ''BTC'' =
     (Inl failed_prediction,
      [LogInfo ''Analyzing market'' ''BTC'',
       LogError ''Market analysis failed'' ''BTC'' (Some failed_prediction)])"
  by (simp add: analyzeMarket_def analyzeMarket_try_def sample_agent_def sample_world_def
        getMarketData_def Let_def)

lemma sample_analysis_buys:
  "s \<noteq> ''BTC'' \<Longrightarrow> analyzeMarket sample_agent sample_world s =
     (Inr sample_buy, [LogInfo ''Analyzing market'' s, LogInfo ''Market analysis complete'' s])"
  by (simp add: analyzeMarket_def analyzeMarket_try_def sample_agent_def sample_world_def
        getMarketData_def Let_def calculateConfidence_def or_default_def makeDecision_def
        scenario_config_def getPortfolioStatus_def calculatePositionSize_def sample_buy_def)

lemma sample_execution:
  "executeTrade sample_world sample_buy s =
     (Inr True, [LogInfo ''Executing trade'' s, ClientExecuteTrade (trade_request_of sample_buy s),
                 LogInfo ''Trade executed successfully'' s])"
  by (simp add: executeTrade_def sample_world_def sample_buy_def Let_def)

text \<open>
  C7. One pass over any list of symbols completes without raising, and its trace is
  the traces of the symbols one after the other, each depending on its symbol alone.
  For every symbol of the list, if its analysis raises, the pass holds the events of the
  analysis followed by the log line of the loop with that symbol and that error; and if
  its analysis returns a decision, the pass holds the whole cycle of that symbol: the
  analysis, the execution of the decision, and the delay. Neither depends on what
  happens to the other symbols.
\<close>

theorem tradingLoop_isolates_symbols:
  "fst (tradingLoop a w ss) = Inr () \<and>
   snd (tradingLoop a w ss) = concat (map (\<lambda>s. snd (tradingLoop_body a w s)) ss) \<and>
   (\<forall>s \<in> set ss.
      (\<forall>e evs. analyzeMarket a w s = (Inl e, evs) \<longrightarrow>
         sublist (evs @ [LogError ''Trading loop error'' s (Some e)])
                 (snd (tradingLoop a w ss))) \<and>
      (\<forall>d evs. analyzeMarket a w s = (Inr d, evs) \<longrightarrow>
         sublist (evs @ snd (executeTrade w d s) @ [Delay 1000])
                 (snd (tradingLoop a w ss))))"
proof (intro conjI ballI allI impI)
  show "fst (tradingLoop a w ss) = Inr ()" by (simp add: tradingLoop_trace)
  show "snd (tradingLoop a w ss) = concat (map (\<lambda>s. snd (tradingLoop_body a w s)) ss)"
    by (simp add: tradingLoop_trace)
next
  fix s e evs
  assume "s \<in> set ss" and "analyzeMarket a w s = (Inl e, evs)"
  then show "sublist (evs @ [LogError ''Trading loop error'' s (Some e)])
               (snd (tradingLoop a w ss))"
    using body_sublist_of_tick [of s ss a w] tradingLoop_body_failed [of a w s e evs] by simp
next
  fix s d evs
  assume "s \<in> set ss" and "analyzeMarket a w s = (Inr d, evs)"
  then show "sublist (evs @ snd (executeTrade w d s) @ [Delay 1000])
               (snd (tradingLoop a w ss))"
    using body_sublist_of_tick [of s ss a w] tradingLoop_body_analysed [of a w s d evs] by simp
qed

text \<open>
  Scenario E: of three symbols the forecast of the second fails; its error is logged
  and the third is analysed and traded.
\<close>

theorem tradingLoop_isolates_symbols_witness:
  "''BTC'' \<in> set [''ETH'', ''BTC'', ''METIS''] \<and>
   analyzeMarket sample_agent sample_world ''BTC'' =
     (Inl failed_prediction,
      [LogInfo ''Analyzing market'' ''BTC'',
       LogError ''Market analysis failed'' ''BTC'' (Some failed_prediction)]) \<and>
   sublist [LogInfo ''Analyzing market'' ''BTC'',
            LogError ''Market analysis failed'' ''BTC'' (Some failed_prediction),
            LogError ''Trading loop error'' ''BTC'' (Some failed_prediction)]
     (snd (tradingLoop sample_agent sample_world [''ETH'', ''BTC'', ''METIS''])) \<and>
   ''METIS'' \<in> set [''ETH'', ''BTC'', ''METIS''] \<and>
   analyzeMarket sample_agent sample_world ''METIS'' =
     (Inr sample_buy,
      [LogInfo ''Analyzing market'' ''METIS'', LogInfo ''Market analysis complete'' ''METIS'']) \<and>
   sublist [LogInfo ''Analyzing market'' ''METIS'', LogInfo ''Market analysis complete'' ''METIS'',
            LogInfo ''Executing trade'' ''METIS'',
            ClientExecuteTrade (trade_request_of sample_buy ''METIS''),
            LogInfo ''Trade executed successfully'' ''METIS'', Delay 1000]
     (snd (tradingLoop sample_agent sample_world [''ETH'', ''BTC'', ''METIS''])) \<and>
   fst (tradingLoop sample_agent sample_world [''ETH'', ''BTC'', ''METIS'']) = Inr ()"
proof -
  have m: "analyzeMarket sample_agent sample_world ''METIS'' =
     (Inr sample_buy,
      [LogInfo ''Analyzing market'' ''METIS'', LogInfo ''Market analysis complete'' ''METIS''])"
    by (rule sample_analysis_buys) simp
  note t = tradingLoop_isolates_symbols
             [of sample_agent sample_world "[''ETH'', ''BTC'', ''METIS'']"]
  from t have "fst (tradingLoop sample_agent sample_world [''ETH'', ''BTC'', ''METIS'']) = Inr ()"
    by blast
  moreover from t sample_analysis_fails
  have "sublist ([LogInfo ''Analyzing market'' ''BTC'',
            LogError ''Market analysis failed'' ''BTC'' (Some failed_prediction)] @
            [LogError ''Trading loop error'' ''BTC'' (Some failed_prediction)])
     (snd (tradingLoop sample_agent sample_world [''ETH'', ''BTC'', ''METIS'']))"
    by (meson list.set_intros)
  moreover from t m
  have "sublist ([LogInfo ''Analyzing market'' ''METIS'',
                  LogInfo ''Market analysis complete'' ''METIS''] @
           snd (executeTrade sample_world sample_buy ''METIS'') @ [Delay 1000])
     (snd (tradingLoop sample_agent sample_world [''ETH'', ''BTC'', ''METIS'']))"
    by (meson list.set_intros)
  ultimately show ?thesis
    using sample_analysis_fails m by (simp add: sample_execution)
qed

section \<open>Executing a decision\<close>

text \<open>
  C10. \<open>executeTrade\<close> returns a boolean for every decision, symbol and execution
  client, and never raises. A hold returns true, and its trace is the one log line: the
  client is not called. For any other action, an error thrown by the client becomes
  the result false, and an answer of the client is passed on.
\<close>

theorem executeTrade_total:
  "(\<exists>b. fst (executeTrade w d s) = Inr b) \<and>
   (action d = hold \<longrightarrow>
      executeTrade w d s = (Inr True, [LogInfo ''No action required'' s]) \<and>
      (\<forall>req. ClientExecuteTrade req \<notin> set (snd (executeTrade w d s)))) \<and>
   (action d \<noteq> hold \<longrightarrow>
      (\<forall>e. hyperionClient_executeTrade w (trade_request_of d s) = Inl e \<longrightarrow>
         fst (executeTrade w d s) = Inr False) \<and>
      (\<forall>b. hyperionClient_executeTrade w (trade_request_of d s) = Inr b \<longrightarrow>
         fst (executeTrade w d s) = Inr b))"
  by (auto simp: executeTrade_def Let_def split: sum.split)

text \<open>A hold, a buy against a client that throws, and a buy against one that answers.\<close>

theorem executeTrade_total_witness:
  "action sample_hold = hold \<and>
   executeTrade unreachable_client_world sample_hold ''ETH''
     = (Inr True, [LogInfo ''No action required'' ''ETH'']) \<and>
   action sample_buy \<noteq> hold \<and>
   hyperionClient_executeTrade unreachable_client_world (trade_request_of sample_buy ''ETH'')
     = Inl network_error \<and>
   fst (executeTrade unreachable_client_world sample_buy ''ETH'') = Inr False \<and>
   hyperionClient_executeTrade sample_world (trade_request_of sample_buy ''ETH'') = Inr True \<and>
   fst (executeTrade sample_world sample_buy ''ETH'') = Inr True"
proof -
  have h: "action sample_hold = hold" "action sample_buy \<noteq> hold"
    by (simp_all add: sample_hold_def sample_buy_def)
  have c: "hyperionClient_executeTrade unreachable_client_world r = Inl network_error"
          "hyperionClient_executeTrade sample_world r = Inr True" for r
    by (simp_all add: unreachable_client_world_def sample_world_def)
  show ?thesis
    using executeTrade_total [of unreachable_client_world sample_hold "''ETH''"]
          executeTrade_total [of unreachable_client_world sample_buy "''ETH''"]
          executeTrade_total [of sample_world sample_buy "''ETH''"]
          h c
    by blast
qed

section \<open>A forecast that fails\<close>

text \<open>
  C6, as the specification states it, asks for a hold of low confidence when the
  predictor fails. In \<open>analyzeMarket\<close> of an initialized agent, a predictor that
  throws makes the analysis throw the same error, after logging it: no decision comes
  out of it.
\<close>

theorem analyzeMarket_prediction_failure_counterexample:
  "isInitialized sample_agent \<and>
   predictor_predict sample_world ''BTC'' [price (getMarketData sample_world ''BTC'')]
     = Inl failed_prediction \<and>
   analyzeMarket sample_agent sample_world ''BTC'' =
     (Inl failed_prediction,
      [LogInfo ''Analyzing market'' ''BTC'',
       LogError ''Market analysis failed'' ''BTC'' (Some failed_prediction)])"
  by (simp add: analyzeMarket_def analyzeMarket_try_def sample_agent_def sample_world_def
        getMarketData_def Let_def)

text \<open>
  C6, amended. In the agent with the decision rule, an error of the predictor is
  logged and thrown again by \<open>analyzeMarket\<close>, and it is the iteration of the trading
  loop that catches it: the iteration logs the error with the symbol and ends normally,
  with no decision and no call of the execution client for that symbol. In the agent
  driven by signals, a failure of the analysis is recovered where it happens, by the
  fallback signal: HOLD with confidence 30 (of 100) and risk level HIGH, after one log
  line that carries the error; this holds when the call of the analysing agent throws
  and also when the prompt cannot be built because the timestamp is no date.
\<close>

theorem prediction_failure_handling:
  "(isInitialized a \<and> predictor_predict w s [price (getMarketData w s)] = Inl e \<longrightarrow>
      analyzeMarket a w s =
        (Inl e, [LogInfo ''Analyzing market'' s, LogError ''Market analysis failed'' s (Some e)]) \<and>
      tradingLoop_body a w s =
        (Inr (), [LogInfo ''Analyzing market'' s, LogError ''Market analysis failed'' s (Some e),
                  LogError ''Trading loop error'' s (Some e)])) \<and>
   (agent_run md = Inl e' \<longrightarrow>
      fst (analyzeMarketAndGenerateSignal agent_run md) =
        Inr \<lparr>sig_action = HOLD, sig_confidence = 30, sig_amount = None,
             expectedPrice = pair_price md, riskLevel = HIGH, mevRisk = False\<rparr>) \<and>
   (agent_run md = Inl e' \<and> \<bar>pair_timestamp md * 1000\<bar> \<le> 8640000000000000 \<longrightarrow>
      snd (analyzeMarketAndGenerateSignal agent_run md) =
        [LogError ''Error generating trading signal:'' [] (Some e')]) \<and>
   (\<bar>pair_timestamp md * 1000\<bar> > 8640000000000000 \<longrightarrow>
      analyzeMarketAndGenerateSignal agent_run md =
        (Inr \<lparr>sig_action = HOLD, sig_confidence = 30, sig_amount = None,
              expectedPrice = pair_price md, riskLevel = HIGH, mevRisk = False\<rparr>,
         [LogError ''Error generating trading signal:'' []
            (Some (RangeError ''Invalid time value''))]))"
  by (simp add: analyzeMarket_def analyzeMarket_try_def tradingLoop_body_def Let_def
        analyzeMarketAndGenerateSignal_def analyzeMarketAndGenerateSignal_try_def
        toISOString_of_seconds_def generateFallbackSignal_def)

text \<open>
  A forecast that fails for one symbol, an analysing agent that throws on a pair with a
  timestamp that is a date, and a pair whose timestamp is none.
\<close>

theorem prediction_failure_handling_witness:
  "isInitialized sample_agent \<and>
   predictor_predict sample_world ''BTC'' [price (getMarketData sample_world ''BTC'')]
     = Inl failed_prediction \<and>
   analyzeMarket sample_agent sample_world ''BTC'' =
     (Inl failed_prediction,
      [LogInfo ''Analyzing market'' ''BTC'',
       LogError ''Market analysis failed'' ''BTC'' (Some failed_prediction)]) \<and>
   tradingLoop_body sample_agent sample_world ''BTC'' =
     (Inr (), [LogInfo ''Analyzing market'' ''BTC'',
               LogError ''Market analysis failed'' ''BTC'' (Some failed_prediction),
               LogError ''Trading loop error'' ''BTC'' (Some failed_prediction)]) \<and>
   (\<lambda>md. Inl failed_prediction :: error + string) sample_pair = Inl failed_prediction \<and>
   \<bar>pair_timestamp sample_pair * 1000\<bar> \<le> 8640000000000000 \<and>
   analyzeMarketAndGenerateSignal (\<lambda>md. Inl failed_prediction) sample_pair =
     (Inr \<lparr>sig_action = HOLD, sig_confidence = 30, sig_amount = None,
           expectedPrice = 2, riskLevel = HIGH, mevRisk = False\<rparr>,
      [LogError ''Error generating trading signal:'' [] (Some failed_prediction)]) \<and>
   \<bar>pair_timestamp undatable_pair * 1000\<bar> > 8640000000000000 \<and>
   analyzeMarketAndGenerateSignal (\<lambda>md. Inr ''BUY'') undatable_pair =
     (Inr \<lparr>sig_action = HOLD, sig_confidence = 30, sig_amount = None,
           expectedPrice = 2, riskLevel = HIGH, mevRisk = False\<rparr>,
      [LogError ''Error generating trading signal:'' []
         (Some (RangeError ''Invalid time value''))])"
proof -
  have p: "pair_timestamp sample_pair = 0" "pair_price sample_pair = 2"
          "pair_timestamp undatable_pair = 10000000000000000" "pair_price undatable_pair = 2"
    by (simp_all add: sample_pair_def undatable_pair_def)
  have a: "isInitialized sample_agent"
          "predictor_predict sample_world ''BTC'' [price (getMarketData sample_world ''BTC'')]
             = Inl failed_prediction"
    by (simp_all add: sample_agent_def sample_world_def)
  show ?thesis
    using prediction_failure_handling
            [of sample_agent sample_world "''BTC''" failed_prediction
                "\<lambda>md. Inl failed_prediction" sample_pair failed_prediction]
          prediction_failure_handling
            [of sample_agent sample_world "''BTC''" failed_prediction
                "\<lambda>md. Inr ''BUY''" undatable_pair failed_prediction]
          a
    by (simp add: p prod_eq_iff)
qed

section \<open>Stopping\<close>

text \<open>
  C8. \<open>stop\<close> is idempotent, but it only clears \<open>isInitialized\<close>: it leaves the
  registered interval as it is. After \<open>startTrading\<close> on one symbol with the default
  period and then \<open>stop\<close>, the interval of 30000 ms is still registered, and when it
  fires a new pass over the symbols starts; the pass logs that the agent is not
  initialized, for each symbol.
\<close>

theorem stop_leaves_interval_running:
  "intervals (fst (stop rt)) = intervals rt \<and>
   fst (stop (fst (stop rt))) = fst (stop rt) \<and>
   fst (startTrading sample_world sample_runtime [''ETH''] None) = Inr () \<and>
   \<not> isInitialized
       (the_agent (fst (stop (fst (snd
          (startTrading sample_world sample_runtime [''ETH''] None)))))) \<and>
   intervals (fst (stop (fst (snd (startTrading sample_world sample_runtime [''ETH''] None)))))
     = [([''ETH''], 30000)] \<and>
   interval_fires sample_world
       (fst (stop (fst (snd (startTrading sample_world sample_runtime [''ETH''] None))))) 0
     = Some (Inr (), [LogError ''Trading loop error'' ''ETH''
                        (Some (Error ''Agent not initialized''))])"
proof -
  have st: "startTrading sample_world sample_runtime [''ETH''] None =
     (Inr (), \<lparr>the_agent = sample_agent, intervals = [([''ETH''], 30000)]\<rparr>,
      LogInfo ''Starting automated trading'' []
        # snd (tradingLoop sample_agent sample_world [''ETH'']))"
    by (simp add: startTrading_def sample_runtime_def tradingLoop_trace)
       (simp add: sample_agent_def)
  show ?thesis
    unfolding st
    by (simp add: stop_def interval_fires_def tradingLoop_body_def analyzeMarket_def)
qed

end
